theory Spec2Isabelle
  imports Complex_Main "HOL-Library.AList"
begin

section \<open>Python strings\<close>

text \<open>
  Python \<open>str\<close> values are modelled as HOL strings (lists of characters). The
  operations below are the ones \<open>server.py\<close> calls: \<open>str.startswith\<close>,
  \<open>str.split(sep)\<close> and \<open>sep.join\<close> with a one-character separator, and the
  slice \<open>xs[:n]\<close>.
\<close>

definition startswith :: "string \<Rightarrow> string \<Rightarrow> bool" where
  "startswith s p = (take (length p) s = p)"

text \<open>\<open>s.split(c)\<close>: always at least one segment; \<open>''''.split(c) = ['''']\<close>.\<close>

primrec split_sep :: "char \<Rightarrow> string \<Rightarrow> string list" where
  "split_sep c [] = [[]]"
| "split_sep c (x # xs) =
     (if x = c then [] # split_sep c xs
      else (case split_sep c xs of
              [] \<Rightarrow> [[x]]
            | y # ys \<Rightarrow> (x # y) # ys))"

text \<open>\<open>c.join(xs)\<close>.\<close>

fun join_sep :: "char \<Rightarrow> string list \<Rightarrow> string" where
  "join_sep c [] = []"
| "join_sep c [x] = x"
| "join_sep c (x # y # ys) = x @ c # join_sep c (y # ys)"

text \<open>
  The slice \<open>xs[:n]\<close> for a Python integer \<open>n\<close>: the first \<open>n\<close> elements when
  \<open>n\<close> is not negative, all but the last \<open>-n\<close> elements otherwise.
\<close>

definition slice_to :: "'a list \<Rightarrow> int \<Rightarrow> 'a list" where
  "slice_to xs n = (if 0 \<le> n then take (nat n) xs else take (length xs - nat (- n)) xs)"

abbreviation newline :: char where
  "newline \<equiv> CHR 0x0A"

section \<open>The output limiter\<close>

text \<open>
  \<open>_truncate_lines(text, max_lines)\<close>, the local function of \<open>run_command\<close>
  (lines 282 to 289 of \<open>server.py\<close>).
\<close>

definition truncate_lines :: "string \<Rightarrow> int \<Rightarrow> string \<times> bool" where
  "truncate_lines text0 max_lines =
     (if text0 = [] then (text0, False)
      else let lines = split_sep newline text0 in
        if int (length lines) \<le> max_lines then (text0, False)
        else (join_sep newline (slice_to lines max_lines), True))"


section \<open>Paths\<close>

text \<open>
  \<open>BASE_DIR\<close> (line 20), and the functions of Python's \<open>posixpath\<close> module that the
  tools call on it: \<open>os.path.join\<close> with two arguments, \<open>os.path.normpath\<close> and
  \<open>os.path.dirname\<close>, each written after the library's own code.
\<close>

definition BASE_DIR :: string where
  "BASE_DIR = ''/data''"

definition endswith :: "string \<Rightarrow> string \<Rightarrow> bool" where
  "endswith s p = (length p \<le> length s \<and> drop (length s - length p) s = p)"

abbreviation slash :: char where
  "slash \<equiv> CHR ''/''"

definition path_join :: "string \<Rightarrow> string \<Rightarrow> string" where
  "path_join a b =
     (if startswith b ''/'' then b
      else if a = [] \<or> endswith a ''/'' then a @ b
      else a @ ''/'' @ b)"

text \<open>
  One round of the loop of \<open>normpath\<close> over the components: empty and \<open>.\<close>
  components are skipped; \<open>..\<close> removes the last kept component, is kept itself
  at the start of a relative path or after another kept \<open>..\<close>, and is dropped at
  the root.
\<close>

definition norm_step :: "nat \<Rightarrow> string list \<Rightarrow> string \<Rightarrow> string list" where
  "norm_step initial_slashes new_comps part =
     (if part = [] \<or> part = ''.'' then new_comps
      else if part \<noteq> ''..'' \<or> (initial_slashes = 0 \<and> new_comps = [])
              \<or> (new_comps \<noteq> [] \<and> last new_comps = ''..'')
        then new_comps @ [part]
      else if new_comps \<noteq> [] then butlast new_comps
      else new_comps)"

definition initial_slashes_of :: "string \<Rightarrow> nat" where
  "initial_slashes_of path =
     (if startswith path ''/''
      then (if startswith path ''//'' \<and> \<not> startswith path ''///'' then 2 else 1)
      else 0)"

definition norm_comps :: "string \<Rightarrow> string list" where
  "norm_comps path = foldl (norm_step (initial_slashes_of path)) [] (split_sep slash path)"

definition normpath :: "string \<Rightarrow> string" where
  "normpath path =
     (if path = [] then ''.''
      else let path1 = join_sep slash (norm_comps path);
               path2 = (if initial_slashes_of path \<noteq> 0
                        then replicate (initial_slashes_of path) slash @ path1
                        else path1)
           in if path2 = [] then ''.'' else path2)"

text \<open>
  \<open>dirname(p)\<close>: the part of \<open>p\<close> up to its last slash, with the trailing slashes
  removed unless that part consists of slashes only.
\<close>

definition dirname :: "string \<Rightarrow> string" where
  "dirname p =
     (let head = rev (dropWhile (\<lambda>c. c \<noteq> slash) (rev p))
      in if head \<noteq> [] \<and> head \<noteq> replicate (length head) slash
         then rev (dropWhile (\<lambda>c. c = slash) (rev head))
         else head)"

text \<open>
  The check every tool makes on the path it is given (lines 79 to 83, 112 to 116,
  137 to 141, 161 to 165 and 205 to 206): the path is joined onto \<open>BASE_DIR\<close> and
  normalised, and the tool goes on only if the result, as a string, starts with
  \<open>BASE_DIR\<close>.
\<close>

definition target_of :: "string \<Rightarrow> string" where
  "target_of path = normpath (path_join BASE_DIR path)"

text \<open>
  What the spec calls resolving inside the base directory, in its own words: the
  resolved path is the base directory itself or lies below it.
\<close>

definition inside_base :: "string \<Rightarrow> bool" where
  "inside_base resolved = (resolved = BASE_DIR \<or> startswith resolved (BASE_DIR @ ''/''))"

section \<open>The file system\<close>

text \<open>
  The file system is a tree: a regular file holds its content, a directory its
  entries by name. Paths are resolved component by component from the root.
  Symbolic links, special files, permissions and mount points are not modelled,
  and a file's bytes are its text (the encoding is the identity).
\<close>

datatype node = File string | Dir "(string \<times> node) list"

datatype os_error =
    FileNotFoundError
  | FileExistsError
  | NotADirectoryError
  | IsADirectoryError
  | DirectoryNotEmpty
  | DeviceBusy

definition path_components :: "string \<Rightarrow> string list" where
  "path_components p = filter (\<lambda>c. c \<noteq> []) (split_sep slash p)"

fun lookup :: "node \<Rightarrow> string list \<Rightarrow> node option" where
  "lookup n [] = Some n"
| "lookup (File c) (d # ds) = None"
| "lookup (Dir es) (d # ds) = (case map_of es d of None \<Rightarrow> None | Some ch \<Rightarrow> lookup ch ds)"

definition os_path_exists :: "node \<Rightarrow> string \<Rightarrow> bool" where
  "os_path_exists fs p = (lookup fs (path_components p) \<noteq> None)"

definition os_path_isdir :: "node \<Rightarrow> string \<Rightarrow> bool" where
  "os_path_isdir fs p =
     (case lookup fs (path_components p) of Some (Dir es) \<Rightarrow> True | _ \<Rightarrow> False)"

definition os_path_isfile :: "node \<Rightarrow> string \<Rightarrow> bool" where
  "os_path_isfile fs p =
     (case lookup fs (path_components p) of Some (File c) \<Rightarrow> True | _ \<Rightarrow> False)"

text \<open>
  \<open>os.makedirs(name, exist_ok=True)\<close>: every missing directory on the way is
  created; a regular file on the way, or at \<open>name\<close> itself, raises.
\<close>

fun mkdirs :: "node \<Rightarrow> string list \<Rightarrow> os_error + node" where
  "mkdirs (Dir es) [] = Inr (Dir es)"
| "mkdirs (File c) [] = Inl FileExistsError"
| "mkdirs (File c) (d # ds) = Inl NotADirectoryError"
| "mkdirs (Dir es) (d # ds) =
     (case mkdirs (case map_of es d of None \<Rightarrow> Dir [] | Some ch \<Rightarrow> ch) ds of
        Inl e \<Rightarrow> Inl e
      | Inr ch' \<Rightarrow> Inr (Dir (AList.update d ch' es)))"

definition os_makedirs :: "node \<Rightarrow> string \<Rightarrow> os_error + node" where
  "os_makedirs fs name =
     (if name = [] then Inl FileNotFoundError else mkdirs fs (path_components name))"

text \<open>
  \<open>open(p, 'w')\<close>, \<open>write(content)\<close> and close: the parent must be a directory and
  \<open>p\<close> must not be one; the file is created or its content replaced. In text
  mode a newline is written as \<open>os.linesep\<close>, which is the newline itself on POSIX.
\<close>

fun write_at :: "node \<Rightarrow> string list \<Rightarrow> string \<Rightarrow> os_error + node" where
  "write_at n [] content = Inl IsADirectoryError"
| "write_at (File c) (d # ds) content = Inl NotADirectoryError"
| "write_at (Dir es) [d] content =
     (case map_of es d of
        Some (Dir sub) \<Rightarrow> Inl IsADirectoryError
      | _ \<Rightarrow> Inr (Dir (AList.update d (File content) es)))"
| "write_at (Dir es) (d # d' # ds) content =
     (case map_of es d of
        None \<Rightarrow> Inl FileNotFoundError
      | Some ch \<Rightarrow>
          (case write_at ch (d' # ds) content of
             Inl e \<Rightarrow> Inl e
           | Inr ch' \<Rightarrow> Inr (Dir (AList.update d ch' es))))"

definition open_write :: "node \<Rightarrow> string \<Rightarrow> string \<Rightarrow> os_error + node" where
  "open_write fs p content = write_at fs (path_components p) content"

text \<open>
  \<open>open(p, 'r').read()\<close>. Python opens text files with universal newlines: on
  reading, \<open>\r\n\<close> and a lone \<open>\r\<close> are each translated into \<open>\n\<close>.
\<close>

abbreviation carriage_return :: char where
  "carriage_return \<equiv> CHR 0x0D"

fun universal_newlines :: "string \<Rightarrow> string" where
  "universal_newlines [] = []"
| "universal_newlines [c] = (if c = carriage_return then [newline] else [c])"
| "universal_newlines (c # d # cs) =
     (if c = carriage_return
      then (if d = newline then newline # universal_newlines cs
            else newline # universal_newlines (d # cs))
      else c # universal_newlines (d # cs))"

definition open_read :: "node \<Rightarrow> string \<Rightarrow> os_error + string" where
  "open_read fs p =
     (case lookup fs (path_components p) of
        None \<Rightarrow> Inl FileNotFoundError
      | Some (Dir es) \<Rightarrow> Inl IsADirectoryError
      | Some (File c) \<Rightarrow> Inr (universal_newlines c))"

text \<open>\<open>os.remove(p)\<close>: unlinks a file, never a directory.\<close>

fun remove_at :: "node \<Rightarrow> string list \<Rightarrow> os_error + node" where
  "remove_at n [] = Inl IsADirectoryError"
| "remove_at (File c) (d # ds) = Inl NotADirectoryError"
| "remove_at (Dir es) [d] =
     (case map_of es d of
        None \<Rightarrow> Inl FileNotFoundError
      | Some (Dir sub) \<Rightarrow> Inl IsADirectoryError
      | Some (File c) \<Rightarrow> Inr (Dir (AList.delete d es)))"
| "remove_at (Dir es) (d # d' # ds) =
     (case map_of es d of
        None \<Rightarrow> Inl FileNotFoundError
      | Some ch \<Rightarrow>
          (case remove_at ch (d' # ds) of
             Inl e \<Rightarrow> Inl e
           | Inr ch' \<Rightarrow> Inr (Dir (AList.update d ch' es))))"

text \<open>\<open>os.rmdir(p)\<close>: removes a directory only when it has no entry.\<close>

fun rmdir_at :: "node \<Rightarrow> string list \<Rightarrow> os_error + node" where
  "rmdir_at n [] = Inl DeviceBusy"
| "rmdir_at (File c) (d # ds) = Inl NotADirectoryError"
| "rmdir_at (Dir es) [d] =
     (case map_of es d of
        None \<Rightarrow> Inl FileNotFoundError
      | Some (File c) \<Rightarrow> Inl NotADirectoryError
      | Some (Dir sub) \<Rightarrow>
          (if sub = [] then Inr (Dir (AList.delete d es)) else Inl DirectoryNotEmpty))"
| "rmdir_at (Dir es) (d # d' # ds) =
     (case map_of es d of
        None \<Rightarrow> Inl FileNotFoundError
      | Some ch \<Rightarrow>
          (case rmdir_at ch (d' # ds) of
             Inl e \<Rightarrow> Inl e
           | Inr ch' \<Rightarrow> Inr (Dir (AList.update d ch' es))))"

definition os_remove :: "node \<Rightarrow> string \<Rightarrow> os_error + node" where
  "os_remove fs p = remove_at fs (path_components p)"

definition os_rmdir :: "node \<Rightarrow> string \<Rightarrow> os_error + node" where
  "os_rmdir fs p = rmdir_at fs (path_components p)"

section \<open>The file tools\<close>

text \<open>
  A tool returns a string. \<open>Plain s\<close> is the string \<open>s\<close>; \<open>Raised prefix e\<close> stands
  for the string \<open>prefix + str(e)\<close> that an \<open>except Exception as e\<close> branch returns
  for the exception \<open>e\<close>; \<open>Dumped v\<close> stands for \<open>json.dumps(v, indent=2)\<close>. The
  tools that change the file system return the new file system beside their reply.
  A JSON value is also what \<open>json.load\<close> returns: \<open>JNull\<close> is \<open>None\<close>, \<open>JObj\<close> a \<open>dict\<close>,
  \<open>JArr\<close> a \<open>list\<close>; a Python \<open>float\<close> is modelled as a rational number.
\<close>

datatype json =
    JNull
  | JBool bool
  | JInt int
  | JFloat rat
  | JStr string
  | JArr "json list"
  | JObj "(string \<times> json) list"

datatype reply = Plain string | Raised string os_error | Dumped json

definition read_file :: "node \<Rightarrow> string \<Rightarrow> reply" where
  "read_file fs file_path =
     (let target_file = normpath (path_join BASE_DIR file_path) in
      if \<not> startswith target_file BASE_DIR
      then Plain ''Error: Cannot access files outside of the base directory.''
      else if \<not> os_path_isfile fs target_file
      then Plain (''Error: File does not exist or is not a file: '' @ file_path)
      else (case open_read fs target_file of
              Inl e \<Rightarrow> Raised ''Error reading file: '' e
            | Inr content \<Rightarrow> Plain content))"

definition write_file :: "node \<Rightarrow> string \<Rightarrow> string \<Rightarrow> reply \<times> node" where
  "write_file fs file_path content =
     (let target_file = normpath (path_join BASE_DIR file_path) in
      if \<not> startswith target_file BASE_DIR
      then (Plain ''Error: Cannot access files outside of the base directory.'', fs)
      else (case os_makedirs fs (dirname target_file) of
              Inl e \<Rightarrow> (Raised ''Error writing to file: '' e, fs)
            | Inr fs1 \<Rightarrow>
                (case open_write fs1 target_file content of
                   Inl e \<Rightarrow> (Raised ''Error writing to file: '' e, fs1)
                 | Inr fs2 \<Rightarrow> (Plain (''Successfully wrote to '' @ file_path), fs2))))"

definition delete_file :: "node \<Rightarrow> string \<Rightarrow> reply \<times> node" where
  "delete_file fs file_path =
     (let target_file = normpath (path_join BASE_DIR file_path) in
      if \<not> startswith target_file BASE_DIR
      then (Plain ''Error: Cannot access files outside of the base directory.'', fs)
      else if \<not> os_path_exists fs target_file
      then (Plain (''Error: File does not exist: '' @ file_path), fs)
      else if os_path_isdir fs target_file
      then (case os_rmdir fs target_file of
              Inl e \<Rightarrow> (Raised ''Error deleting file: '' e, fs)
            | Inr fs1 \<Rightarrow> (Plain (''Successfully deleted directory: '' @ file_path), fs1))
      else (case os_remove fs target_file of
              Inl e \<Rightarrow> (Raised ''Error deleting file: '' e, fs)
            | Inr fs1 \<Rightarrow> (Plain (''Successfully deleted file: '' @ file_path), fs1)))"



text \<open>\<open>list_files\<close> (lines 73 to 103), with \<open>os.listdir\<close> and \<open>os.path.getsize\<close>.\<close>

definition os_listdir :: "node \<Rightarrow> string \<Rightarrow> os_error + string list" where
  "os_listdir fs p =
     (case lookup fs (path_components p) of
        None \<Rightarrow> Inl FileNotFoundError
      | Some (File c) \<Rightarrow> Inl NotADirectoryError
      | Some (Dir es) \<Rightarrow> Inr (remdups (map fst es)))"

definition os_path_getsize :: "node \<Rightarrow> string \<Rightarrow> os_error + int" where
  "os_path_getsize fs p =
     (case lookup fs (path_components p) of
        None \<Rightarrow> Inl FileNotFoundError
      | Some (File c) \<Rightarrow> Inr (int (length c))
      | Some (Dir es) \<Rightarrow> Inr 4096)"

fun file_infos :: "node \<Rightarrow> string \<Rightarrow> string list \<Rightarrow> os_error + json list" where
  "file_infos fs target_dir [] = Inr []"
| "file_infos fs target_dir (file # files) =
     (let full_path = path_join target_dir file;
          is_dir = os_path_isdir fs full_path
      in case (if is_dir then Inr (JStr ''-'')
               else (case os_path_getsize fs full_path of
                       Inl e \<Rightarrow> Inl e
                     | Inr n \<Rightarrow> Inr (JInt n))) of
           Inl e \<Rightarrow> Inl e
         | Inr size0 \<Rightarrow>
             (case file_infos fs target_dir files of
                Inl e \<Rightarrow> Inl e
              | Inr infos \<Rightarrow>
                  Inr (JObj [(''name'', JStr file),
                             (''type'', JStr (if is_dir then ''Directory'' else ''File'')),
                             (''size'', size0)] # infos)))"

definition list_files :: "node \<Rightarrow> string \<Rightarrow> reply" where
  "list_files fs path =
     (let target_dir = normpath (path_join BASE_DIR path) in
      if \<not> startswith target_dir BASE_DIR
      then Plain ''Error: Cannot access directories outside of the base directory.''
      else (case os_listdir fs target_dir of
              Inl e \<Rightarrow> Raised ''Error listing files: '' e
            | Inr files \<Rightarrow>
                (case file_infos fs target_dir files of
                   Inl e \<Rightarrow> Raised ''Error listing files: '' e
                 | Inr file_info \<Rightarrow> Dumped (JArr file_info))))"

section \<open>The command tool\<close>

text \<open>
  The subprocess is the environment's: \<open>spawn\<close> stands for
  \<open>asyncio.create_subprocess_shell\<close> and gives, for a command, its standard input
  and its working directory, either the text of the exception it raises or the
  process it starts. A process exits by itself after \<open>duration\<close> seconds (never,
  when that is \<open>None\<close>) with \<open>returncode\<close>, and \<open>stdout_bytes\<close> and \<open>stderr_bytes\<close> are
  what it writes until it exits or is killed. \<open>utf8_decode\<close> stands for
  \<open>bytes.decode("utf-8", errors="replace")\<close>.
\<close>

record process =
  duration :: "rat option"
  returncode :: int
  stdout_bytes :: string
  stderr_bytes :: string

record system =
  spawn :: "string \<Rightarrow> string option \<Rightarrow> string \<Rightarrow> string + process"
  utf8_decode :: "string \<Rightarrow> string"

text \<open>
  \<open>asyncio.wait_for(proc.communicate(...), timeout)\<close>: the process finishes before
  the deadline, or the deadline passes first, or, with no deadline and a process
  that never exits, the call never returns.
\<close>

datatype wait_result = Completed | TimeoutError | Forever

definition wait_for :: "process \<Rightarrow> rat option \<Rightarrow> wait_result" where
  "wait_for proc deadline =
     (case duration proc of
        None \<Rightarrow> (case deadline of None \<Rightarrow> Forever | Some t \<Rightarrow> TimeoutError)
      | Some d \<Rightarrow>
          (case deadline of
             None \<Rightarrow> Completed
           | Some t \<Rightarrow> if d < t then Completed else TimeoutError))"

text \<open>The effective timeout in seconds (lines 213 to 228).\<close>

definition to_float :: "rat option \<Rightarrow> rat option" where
  "to_float v = (case v of None \<Rightarrow> None | Some x \<Rightarrow> Some x)"

definition timeout_secs :: "rat option \<Rightarrow> rat option \<Rightarrow> rat option" where
  "timeout_secs timeout0 timeout_ms =
     (if timeout0 \<noteq> None \<or> timeout_ms \<noteq> None
      then let secs = to_float timeout0;
               secs1 = (if secs = None
                        then (case to_float timeout_ms of
                                None \<Rightarrow> None
                              | Some ms \<Rightarrow> Some (ms / 1000))
                        else secs)
           in (case secs1 of
                 None \<Rightarrow> None
               | Some s \<Rightarrow> if s > 0 then Some s else None)
      else Some 60)"

definition json_of_secs :: "rat option \<Rightarrow> json" where
  "json_of_secs v = (case v of None \<Rightarrow> JNull | Some x \<Rightarrow> JFloat x)"

text \<open>
  \<open>run_command\<close> (lines 181 to 317). The result is the object given to
  \<open>json.dumps\<close>, or \<open>None\<close> when the call never returns, together with the
  subprocesses that were started, each as its command and working directory.
\<close>

definition run_command ::
  "system \<Rightarrow> int \<Rightarrow> string \<Rightarrow> string option \<Rightarrow> string \<Rightarrow> rat option \<Rightarrow> rat option
    \<Rightarrow> json option \<times> (string \<times> string) list" where
  "run_command sys MAX_OUTPUT_LINES command stdin cwd timeout0 timeout_ms =
     (let candidate = normpath (path_join BASE_DIR cwd) in
      if cwd \<noteq> [] \<and> \<not> startswith candidate BASE_DIR
      then (Some (JObj [(''error'', JStr ''Cannot use cwd outside of the base directory''),
                        (''cwd'', JStr cwd)]), [])
      else
        let working_dir = (if cwd \<noteq> [] then candidate else BASE_DIR);
            tsecs = timeout_secs timeout0 timeout_ms
        in (case spawn sys command stdin working_dir of
              Inl e \<Rightarrow>
                (Some (JObj [(''error'', JStr (''Error running command: '' @ e)),
                             (''cwd'', JStr working_dir),
                             (''command'', JStr command),
                             (''truncated'', JBool False),
                             (''stdout_truncated'', JBool False),
                             (''stderr_truncated'', JBool False),
                             (''max_lines'', JInt MAX_OUTPUT_LINES)]), [])
            | Inr proc \<Rightarrow>
                (case wait_for proc tsecs of
                   Forever \<Rightarrow> (None, [(command, working_dir)])
                 | TimeoutError \<Rightarrow>
                     (Some (JObj [(''stdout'', JStr []),
                                  (''stderr'', JStr ''Command timed out''),
                                  (''exit_code'', JNull),
                                  (''cwd'', JStr working_dir),
                                  (''command'', JStr command),
                                  (''timeout_seconds'', json_of_secs tsecs),
                                  (''timed_out'', JBool True),
                                  (''truncated'', JBool False),
                                  (''stdout_truncated'', JBool False),
                                  (''stderr_truncated'', JBool False),
                                  (''max_lines'', JInt MAX_OUTPUT_LINES)]),
                      [(command, working_dir)])
                 | Completed \<Rightarrow>
                     (let out = (if stdout_bytes proc \<noteq> []
                                 then utf8_decode sys (stdout_bytes proc) else []);
                          err = (if stderr_bytes proc \<noteq> []
                                 then utf8_decode sys (stderr_bytes proc) else []);
                          (stdout_truncated_text, stdout_truncated) =
                             truncate_lines out MAX_OUTPUT_LINES;
                          (stderr_truncated_text, stderr_truncated) =
                             truncate_lines err MAX_OUTPUT_LINES;
                          any_truncated = (stdout_truncated \<or> stderr_truncated)
                      in (Some (JObj [(''stdout'', JStr stdout_truncated_text),
                                      (''stderr'', JStr stderr_truncated_text),
                                      (''exit_code'', JInt (returncode proc)),
                                      (''cwd'', JStr working_dir),
                                      (''command'', JStr command),
                                      (''timeout_seconds'', json_of_secs tsecs),
                                      (''timed_out'', JBool False),
                                      (''truncated'', JBool any_truncated),
                                      (''stdout_truncated'', JBool stdout_truncated),
                                      (''stderr_truncated'', JBool stderr_truncated),
                                      (''max_lines'', JInt MAX_OUTPUT_LINES)]),
                          [(command, working_dir)])))))"

text \<open>Reading a field of a result object.\<close>

definition field :: "json option \<Rightarrow> string \<Rightarrow> json option" where
  "field r k = (case r of Some (JObj kvs) \<Rightarrow> map_of kvs k | _ \<Rightarrow> None)"

section \<open>The output-line limit\<close>






















section \<open>Example inputs\<close>

text \<open>
  A system whose every command runs for five seconds, a start-up environment with
  two unusable environment variables and a configuration file, and a small file
  system; the theorems below are instantiated at them.
\<close>

definition sleeper :: system where
  "sleeper = \<lparr>spawn = (\<lambda>command stdin working_dir.
       Inr \<lparr>duration = Some 5, returncode = 0, stdout_bytes = ''partial'', stderr_bytes = ''noise''\<rparr>),
     utf8_decode = (\<lambda>b. b)\<rparr>"


definition example_fs :: node where
  "example_fs = Dir [(''data'', Dir [(''docs'', Dir [(''a.txt'', File ''hello'')]),
                                     (''empty'', Dir []),
                                     (''notes.txt'', File ''remember'')])]"

section \<open>Splitting and joining\<close>

lemma split_sep_not_Nil: "split_sep c s \<noteq> []"
  by (induction s) (auto split: list.splits)

lemma split_sep_no_sep: "x \<in> set (split_sep c s) \<Longrightarrow> c \<notin> set x"
proof (induction s arbitrary: x)
  case Nil
  then show ?case by simp
next
  case (Cons a s)
  show ?case
  proof (cases "a = c")
    case True
    with Cons show ?thesis by auto
  next
    case False
    obtain y ys where ys: "split_sep c s = y # ys"
      using split_sep_not_Nil [of c s] by (cases "split_sep c s") auto
    with Cons False show ?thesis by auto
  qed
qed

lemma join_split_sep: "join_sep c (split_sep c s) = s"
proof (induction s)
  case Nil
  show ?case by simp
next
  case (Cons a s)
  obtain y ys where ys: "split_sep c s = y # ys"
    using split_sep_not_Nil [of c s] by (cases "split_sep c s") auto
  show ?case
  proof (cases "a = c")
    case True
    with Cons ys show ?thesis by simp
  next
    case False
    with Cons ys show ?thesis by (cases ys) auto
  qed
qed

lemma split_sep_no_occurrence: "c \<notin> set x \<Longrightarrow> split_sep c x = [x]"
  by (induction x) auto

lemma split_sep_append_sep:
  "c \<notin> set x \<Longrightarrow> split_sep c (x @ c # s) = x # split_sep c s"
  by (induction x) auto

lemma split_join_sep:
  "xs \<noteq> [] \<Longrightarrow> \<forall>x \<in> set xs. c \<notin> set x \<Longrightarrow> split_sep c (join_sep c xs) = xs"
proof (induction c xs rule: join_sep.induct)
  case (1 c)
  then show ?case by simp
next
  case (2 c x)
  then show ?case by (simp add: split_sep_no_occurrence)
next
  case (3 c x y ys)
  then show ?case by (simp add: split_sep_append_sep)
qed

section \<open>The limiter's contract\<close>

lemma truncate_lines_fits:
  "int (length (split_sep newline t)) \<le> n \<Longrightarrow> truncate_lines t n = (t, False)"
  by (simp add: truncate_lines_def Let_def)

lemma truncate_lines_cuts:
  assumes "0 < n" and "\<not> int (length (split_sep newline t)) \<le> n"
  shows "truncate_lines t n = (join_sep newline (take (nat n) (split_sep newline t)), True)"
proof -
  from assms have "t \<noteq> []" by auto
  with assms show ?thesis
    by (simp add: truncate_lines_def Let_def slice_to_def)
qed

lemma truncate_lines_idem:
  assumes "0 < n"
  shows "truncate_lines (fst (truncate_lines t n)) n = (fst (truncate_lines t n), False)"
proof (cases "int (length (split_sep newline t)) \<le> n")
  case True
  then show ?thesis by (simp add: truncate_lines_fits)
next
  case False
  let ?ls = "take (nat n) (split_sep newline t)"
  have len: "length ?ls = nat n" using False by simp
  have ne: "?ls \<noteq> []" using len assms by auto
  have nosep: "\<forall>x \<in> set ?ls. newline \<notin> set x"
    by (meson in_set_takeD split_sep_no_sep)
  have "split_sep newline (join_sep newline ?ls) = ?ls"
    using ne nosep by (rule split_join_sep)
  then have "int (length (split_sep newline (join_sep newline ?ls))) \<le> n"
    using len assms by simp
  then have "truncate_lines (join_sep newline ?ls) n = (join_sep newline ?ls, False)"
    by (rule truncate_lines_fits)
  then show ?thesis
    using assms False by (simp add: truncate_lines_cuts)
qed

text \<open>
  Claim C4. For every text \<open>t\<close> and positive limit \<open>n\<close>: when \<open>t\<close> splits into at
  most \<open>n\<close> newline-separated segments the limiter returns \<open>(t, False)\<close>; otherwise
  it returns exactly the first \<open>n\<close> segments joined with newline, and \<open>True\<close>;
  limiting the limiter's own output again with the same \<open>n\<close> returns it unchanged
  with \<open>False\<close>; and the empty text is returned unchanged.
\<close>

theorem truncate_lines_contract:
  assumes "0 < n"
  shows "(int (length (split_sep newline t)) \<le> n \<longrightarrow> truncate_lines t n = (t, False))
    \<and> (\<not> int (length (split_sep newline t)) \<le> n \<longrightarrow>
          truncate_lines t n = (join_sep newline (take (nat n) (split_sep newline t)), True))
    \<and> truncate_lines (fst (truncate_lines t n)) n = (fst (truncate_lines t n), False)
    \<and> truncate_lines [] n = ([], False)"
  using assms truncate_lines_fits truncate_lines_cuts truncate_lines_idem
  by (simp add: truncate_lines_def)

theorem truncate_lines_contract_witness:
  "truncate_lines ''a\<newline>b\<newline>c'' 2 = (''a\<newline>b'', True)
    \<and> truncate_lines ''a\<newline>b'' 2 = (''a\<newline>b'', False)
    \<and> truncate_lines (fst (truncate_lines ''a\<newline>b\<newline>c'' 2)) 2
        = (fst (truncate_lines ''a\<newline>b\<newline>c'' 2), False)"
proof -
  have pos: "(0::int) < 2" by simp
  have cut: "\<not> int (length (split_sep newline ''a\<newline>b\<newline>c'')) \<le> 2" by simp
  have fit: "int (length (split_sep newline ''a\<newline>b'')) \<le> 2" by simp
  note abc = truncate_lines_contract [OF pos, of "''a\<newline>b\<newline>c''"]
  note ab = truncate_lines_contract [OF pos, of "''a\<newline>b''"]
  from abc [THEN conjunct2, THEN conjunct1] cut
  have "truncate_lines ''a\<newline>b\<newline>c'' 2
      = (join_sep newline (take (nat 2) (split_sep newline ''a\<newline>b\<newline>c'')), True)"
    by (rule mp)
  then have a: "truncate_lines ''a\<newline>b\<newline>c'' 2 = (''a\<newline>b'', True)"
    by simp
  have c: "truncate_lines (fst (truncate_lines ''a\<newline>b\<newline>c'' 2)) 2
        = (fst (truncate_lines ''a\<newline>b\<newline>c'' 2), False)"
    by (rule abc [THEN conjunct2, THEN conjunct2, THEN conjunct1])
  from ab [THEN conjunct1] fit
  have b: "truncate_lines ''a\<newline>b'' 2 = (''a\<newline>b'', False)"
    by (rule mp)
  from a b c show ?thesis by (intro conjI)
qed


section \<open>The branches of the command tool\<close>

lemma run_command_rejected:
  assumes "cwd \<noteq> []" and "\<not> startswith (normpath (path_join BASE_DIR cwd)) BASE_DIR"
  shows "run_command sys max_lines command stdin cwd timeout0 timeout_ms =
     (Some (JObj [(''error'', JStr ''Cannot use cwd outside of the base directory''),
                  (''cwd'', JStr cwd)]), [])"
  using assms by (simp add: run_command_def)

lemma run_command_spawn_failed:
  assumes "cwd = [] \<or> startswith (normpath (path_join BASE_DIR cwd)) BASE_DIR"
    and "working_dir = (if cwd \<noteq> [] then normpath (path_join BASE_DIR cwd) else BASE_DIR)"
    and "spawn sys command stdin working_dir = Inl e"
  shows "run_command sys max_lines command stdin cwd timeout0 timeout_ms =
     (Some (JObj [(''error'', JStr (''Error running command: '' @ e)),
                  (''cwd'', JStr working_dir),
                  (''command'', JStr command),
                  (''truncated'', JBool False),
                  (''stdout_truncated'', JBool False),
                  (''stderr_truncated'', JBool False),
                  (''max_lines'', JInt max_lines)]), [])"
  using assms by (auto simp add: run_command_def Let_def)

lemma run_command_forever:
  assumes "cwd = [] \<or> startswith (normpath (path_join BASE_DIR cwd)) BASE_DIR"
    and "working_dir = (if cwd \<noteq> [] then normpath (path_join BASE_DIR cwd) else BASE_DIR)"
    and "spawn sys command stdin working_dir = Inr proc"
    and "wait_for proc (timeout_secs timeout0 timeout_ms) = Forever"
  shows "run_command sys max_lines command stdin cwd timeout0 timeout_ms =
     (None, [(command, working_dir)])"
  using assms by (auto simp add: run_command_def Let_def)

lemma run_command_deadline_passed:
  assumes "cwd = [] \<or> startswith (normpath (path_join BASE_DIR cwd)) BASE_DIR"
    and "working_dir = (if cwd \<noteq> [] then normpath (path_join BASE_DIR cwd) else BASE_DIR)"
    and "spawn sys command stdin working_dir = Inr proc"
    and "wait_for proc (timeout_secs timeout0 timeout_ms) = TimeoutError"
  shows "run_command sys max_lines command stdin cwd timeout0 timeout_ms =
     (Some (JObj [(''stdout'', JStr []),
                 (''stderr'', JStr ''Command timed out''),
                 (''exit_code'', JNull),
                 (''cwd'', JStr working_dir),
                 (''command'', JStr command),
                 (''timeout_seconds'', json_of_secs (timeout_secs timeout0 timeout_ms)),
                 (''timed_out'', JBool True),
                 (''truncated'', JBool False),
                 (''stdout_truncated'', JBool False),
                 (''stderr_truncated'', JBool False),
                 (''max_lines'', JInt max_lines)]), [(command, working_dir)])"
  using assms by (auto simp add: run_command_def Let_def)

lemma run_command_completed:
  assumes "cwd = [] \<or> startswith (normpath (path_join BASE_DIR cwd)) BASE_DIR"
    and "working_dir = (if cwd \<noteq> [] then normpath (path_join BASE_DIR cwd) else BASE_DIR)"
    and "spawn sys command stdin working_dir = Inr proc"
    and "wait_for proc (timeout_secs timeout0 timeout_ms) = Completed"
    and "out = (if stdout_bytes proc \<noteq> [] then utf8_decode sys (stdout_bytes proc) else [])"
    and "err = (if stderr_bytes proc \<noteq> [] then utf8_decode sys (stderr_bytes proc) else [])"
  shows "run_command sys max_lines command stdin cwd timeout0 timeout_ms =
     (Some (JObj [(''stdout'', JStr (fst (truncate_lines out max_lines))),
                  (''stderr'', JStr (fst (truncate_lines err max_lines))),
                  (''exit_code'', JInt (returncode proc)),
                  (''cwd'', JStr working_dir),
                  (''command'', JStr command),
                  (''timeout_seconds'', json_of_secs (timeout_secs timeout0 timeout_ms)),
                  (''timed_out'', JBool False),
                  (''truncated'', JBool (snd (truncate_lines out max_lines)
                                        \<or> snd (truncate_lines err max_lines))),
                  (''stdout_truncated'', JBool (snd (truncate_lines out max_lines))),
                  (''stderr_truncated'', JBool (snd (truncate_lines err max_lines))),
                  (''max_lines'', JInt max_lines)]), [(command, working_dir)])"
  using assms by (auto simp add: run_command_def Let_def case_prod_beta)

text \<open>
  Claim C2, as the code has it. For every invocation whose working directory passes
  the check, whose subprocess starts and does not finish before the deadline, the
  result has \<open>timed_out\<close> true, \<open>exit_code\<close> null, an empty \<open>stdout\<close> and the fixed
  text \<open>Command timed out\<close> as \<open>stderr\<close>, whatever bytes the process wrote.
\<close>

theorem run_command_timed_out:
  assumes cwd_ok: "cwd = [] \<or> startswith (normpath (path_join BASE_DIR cwd)) BASE_DIR"
    and wd: "working_dir = (if cwd \<noteq> [] then normpath (path_join BASE_DIR cwd) else BASE_DIR)"
    and spawned: "spawn sys command stdin working_dir = Inr proc"
    and late: "wait_for proc (timeout_secs timeout0 timeout_ms) = TimeoutError"
  shows "fst (run_command sys max_lines command stdin cwd timeout0 timeout_ms) =
     Some (JObj [(''stdout'', JStr []),
                 (''stderr'', JStr ''Command timed out''),
                 (''exit_code'', JNull),
                 (''cwd'', JStr working_dir),
                 (''command'', JStr command),
                 (''timeout_seconds'', json_of_secs (timeout_secs timeout0 timeout_ms)),
                 (''timed_out'', JBool True),
                 (''truncated'', JBool False),
                 (''stdout_truncated'', JBool False),
                 (''stderr_truncated'', JBool False),
                 (''max_lines'', JInt max_lines)])"
  using run_command_deadline_passed [OF assms, of max_lines] by simp

theorem run_command_timed_out_witness:
  "fst (run_command sleeper 1000 ''sleep 5'' None [] (Some 1) None) =
     Some (JObj [(''stdout'', JStr []),
                 (''stderr'', JStr ''Command timed out''),
                 (''exit_code'', JNull),
                 (''cwd'', JStr ''/data''),
                 (''command'', JStr ''sleep 5''),
                 (''timeout_seconds'', JFloat 1),
                 (''timed_out'', JBool True),
                 (''truncated'', JBool False),
                 (''stdout_truncated'', JBool False),
                 (''stderr_truncated'', JBool False),
                 (''max_lines'', JInt 1000)])"
proof -
  have a: "([]::string) = [] \<or> startswith (normpath (path_join BASE_DIR [])) BASE_DIR" by simp
  have b: "''/data'' = (if ([]::string) \<noteq> [] then normpath (path_join BASE_DIR []) else BASE_DIR)"
    by (simp add: BASE_DIR_def)
  have c: "spawn sleeper ''sleep 5'' None ''/data''
      = Inr \<lparr>duration = Some 5, returncode = 0, stdout_bytes = ''partial'', stderr_bytes = ''noise''\<rparr>"
    by (simp add: sleeper_def)
  have d: "wait_for \<lparr>duration = Some 5, returncode = 0, stdout_bytes = ''partial'', stderr_bytes = ''noise''\<rparr>
      (timeout_secs (Some 1) None) = TimeoutError"
    by (simp add: wait_for_def timeout_secs_def to_float_def)
  have e: "json_of_secs (timeout_secs (Some 1) None) = JFloat 1"
    by (simp add: json_of_secs_def timeout_secs_def to_float_def)
  from run_command_timed_out [OF a b c d, of 1000] e show ?thesis by simp
qed

text \<open>
  The claim as written says that \<open>stderr\<close> is empty too. A command that sleeps five
  seconds under a deadline of one second times out, and its \<open>stderr\<close> is not empty.
\<close>

theorem timed_out_stderr_counterexample:
  "wait_for \<lparr>duration = Some 5, returncode = 0, stdout_bytes = ''partial'', stderr_bytes = ''noise''\<rparr>
       (timeout_secs (Some 1) None) = TimeoutError
   \<and> field (fst (run_command sleeper 1000 ''sleep 5'' None [] (Some 1) None)) ''timed_out'' = Some (JBool True)
   \<and> field (fst (run_command sleeper 1000 ''sleep 5'' None [] (Some 1) None)) ''stderr'' = Some (JStr ''Command timed out'')
   \<and> field (fst (run_command sleeper 1000 ''sleep 5'' None [] (Some 1) None)) ''stderr'' \<noteq> Some (JStr [])"
  by code_simp

text \<open>
  Claim C5. In every result of \<open>run_command\<close>, \<open>timed_out\<close> true implies
  \<open>truncated\<close>, \<open>stdout_truncated\<close> and \<open>stderr_truncated\<close> all false.
\<close>

theorem timed_out_never_truncated:
  "field (fst (run_command sys max_lines command stdin cwd timeout0 timeout_ms)) ''timed_out'' = Some (JBool True)
   \<longrightarrow> field (fst (run_command sys max_lines command stdin cwd timeout0 timeout_ms)) ''truncated'' = Some (JBool False)
     \<and> field (fst (run_command sys max_lines command stdin cwd timeout0 timeout_ms)) ''stdout_truncated'' = Some (JBool False)
     \<and> field (fst (run_command sys max_lines command stdin cwd timeout0 timeout_ms)) ''stderr_truncated'' = Some (JBool False)"
proof (cases "cwd \<noteq> [] \<and> \<not> startswith (normpath (path_join BASE_DIR cwd)) BASE_DIR")
  case True
  then show ?thesis by (simp add: run_command_rejected field_def)
next
  case False
  then have ok: "cwd = [] \<or> startswith (normpath (path_join BASE_DIR cwd)) BASE_DIR" by blast
  define working_dir where
    "working_dir = (if cwd \<noteq> [] then normpath (path_join BASE_DIR cwd) else BASE_DIR)"
  show ?thesis
  proof (cases "spawn sys command stdin working_dir")
    case (Inl e)
    show ?thesis
      by (simp add: run_command_spawn_failed [OF ok working_dir_def Inl] field_def)
  next
    case (Inr proc)
    show ?thesis
    proof (cases "wait_for proc (timeout_secs timeout0 timeout_ms)")
      case Completed
      show ?thesis
        by (simp add: run_command_completed [OF ok working_dir_def Inr Completed refl refl]
            field_def)
    next
      case TimeoutError
      show ?thesis
        by (simp add: run_command_deadline_passed [OF ok working_dir_def Inr TimeoutError]
            field_def)
    next
      case Forever
      show ?thesis
        by (simp add: run_command_forever [OF ok working_dir_def Inr Forever] field_def)
    qed
  qed
qed

theorem timed_out_never_truncated_witness:
  "field (fst (run_command sleeper 1000 ''sleep 5'' None [] (Some 1) None)) ''timed_out'' = Some (JBool True)
   \<and> field (fst (run_command sleeper 1000 ''sleep 5'' None [] (Some 1) None)) ''truncated'' = Some (JBool False)
   \<and> field (fst (run_command sleeper 1000 ''sleep 5'' None [] (Some 1) None)) ''stdout_truncated'' = Some (JBool False)
   \<and> field (fst (run_command sleeper 1000 ''sleep 5'' None [] (Some 1) None)) ''stderr_truncated'' = Some (JBool False)"
proof -
  have h: "field (fst (run_command sleeper 1000 ''sleep 5'' None [] (Some 1) None)) ''timed_out''
      = Some (JBool True)"
    by code_simp
  from timed_out_never_truncated [of sleeper 1000 "''sleep 5''" None "[]" "Some 1" None] h
  show ?thesis by blast
qed

text \<open>
  Claim C6. When \<open>cwd\<close> is not empty and fails the check, \<open>run_command\<close> returns
  the error object with the \<open>cwd\<close> the caller gave, and no subprocess is started.
\<close>

theorem cwd_outside_short_circuits:
  assumes "cwd \<noteq> []" and "\<not> startswith (normpath (path_join BASE_DIR cwd)) BASE_DIR"
  shows "run_command sys max_lines command stdin cwd timeout0 timeout_ms =
     (Some (JObj [(''error'', JStr ''Cannot use cwd outside of the base directory''),
                  (''cwd'', JStr cwd)]), [])"
  using assms by (rule run_command_rejected)

theorem cwd_outside_short_circuits_witness:
  "run_command sleeper 1000 ''ls'' None ''..'' None None =
     (Some (JObj [(''error'', JStr ''Cannot use cwd outside of the base directory''),
                  (''cwd'', JStr ''..'')]), [])"
proof -
  have a: "''..'' \<noteq> []" by simp
  have b: "\<not> startswith (normpath (path_join BASE_DIR ''..'')) BASE_DIR" by code_simp
  show ?thesis by (rule cwd_outside_short_circuits [OF a b])
qed

section \<open>The effective deadline\<close>




section \<open>The resolution of the output-line limit\<close>












section \<open>Reading a file that is not there\<close>

text \<open>
  Claim C10. For a path that passes the check, \<open>read_file\<close> returns the same
  error string whether the target does not exist or exists and is a directory.
\<close>

theorem read_file_missing_or_directory:
  assumes ok: "startswith (target_of p) BASE_DIR"
    and missing: "\<not> os_path_exists fs1 (target_of p)"
    and isdir: "os_path_isdir fs2 (target_of p)"
  shows "read_file fs1 p = Plain (''Error: File does not exist or is not a file: '' @ p)
    \<and> read_file fs2 p = read_file fs1 p"
proof -
  have "\<not> os_path_isfile fs1 (target_of p)"
    using missing by (auto simp add: os_path_exists_def os_path_isfile_def split: option.splits)
  moreover have "\<not> os_path_isfile fs2 (target_of p)"
    using isdir by (auto simp add: os_path_isdir_def os_path_isfile_def split: option.splits node.splits)
  ultimately show ?thesis
    using ok by (simp add: read_file_def target_of_def)
qed

theorem read_file_missing_or_directory_witness:
  "read_file (Dir []) ''docs'' = Plain ''Error: File does not exist or is not a file: docs''
   \<and> read_file example_fs ''docs'' = read_file (Dir []) ''docs''"
proof -
  have a: "startswith (target_of ''docs'') BASE_DIR" by code_simp
  have b: "\<not> os_path_exists (Dir []) (target_of ''docs'')" by code_simp
  have c: "os_path_isdir example_fs (target_of ''docs'')" by code_simp
  from read_file_missing_or_directory [OF a b c] show ?thesis by simp
qed

section \<open>The confinement check\<close>

lemma startswith_iff: "startswith s p = (\<exists>r. s = p @ r)"
proof
  assume "startswith s p"
  then have "s = p @ drop (length p) s"
    by (metis startswith_def append_take_drop_id)
  then show "\<exists>r. s = p @ r" ..
next
  assume "\<exists>r. s = p @ r"
  then show "startswith s p" by (auto simp add: startswith_def)
qed

lemma inside_base_accepted: "inside_base t \<Longrightarrow> startswith t BASE_DIR"
  by (auto simp add: inside_base_def startswith_iff)

lemma outside_prefix_rejected:
  assumes "\<not> startswith (target_of p) BASE_DIR"
  shows "read_file fs p = Plain ''Error: Cannot access files outside of the base directory.''"
    and "write_file fs p content
           = (Plain ''Error: Cannot access files outside of the base directory.'', fs)"
    and "delete_file fs p
           = (Plain ''Error: Cannot access files outside of the base directory.'', fs)"
    and "list_files fs p
           = Plain ''Error: Cannot access directories outside of the base directory.''"
  using assms
  by (simp_all add: read_file_def write_file_def delete_file_def list_files_def target_of_def)

text \<open>
  Claim C1 at the input \<open>../data2/secret.txt\<close>. The path resolves to
  \<open>/data2/secret.txt\<close>, which is outside the base directory \<open>/data\<close>; the check
  accepts it, because the string \<open>/data2/secret.txt\<close> starts with the string
  \<open>/data\<close>, and \<open>write_file\<close> writes the file there.
\<close>

theorem confinement_accepts_sibling_directory:
  "target_of ''../data2/secret.txt'' = ''/data2/secret.txt''
   \<and> startswith (target_of ''../data2/secret.txt'') BASE_DIR
   \<and> \<not> inside_base (target_of ''../data2/secret.txt'')
   \<and> fst (write_file (Dir []) ''../data2/secret.txt'' ''x'')
       = Plain ''Successfully wrote to ../data2/secret.txt''
   \<and> lookup (snd (write_file (Dir []) ''../data2/secret.txt'' ''x'')) [''data2'', ''secret.txt'']
       = Some (File ''x'')"
  by code_simp

section \<open>Deleting\<close>











end
